theory Spec2Isabelle
  imports Main
begin

section \<open>Build configuration, failures and sequencing\<close>

text \<open>
  The header \<^verbatim>\<open>include/nova/non_null.hpp\<close> behaves differently under two switches that are
  fixed when it is compiled:
  \<^item> \<open>ndebug\<close>: \<^verbatim>\<open>NDEBUG\<close> is defined, so that \<^verbatim>\<open>assert(e)\<close> expands to nothing (an
    unchecked build); when it is \<open>False\<close> a failing \<^verbatim>\<open>assert\<close> aborts the program;
  \<^item> \<open>has_assume\<close>: \<^verbatim>\<open>NOVA_ASSUME(e)\<close> expands to an optimiser assumption
    (\<^verbatim>\<open>[[assume(e)]]\<close>, \<^verbatim>\<open>__assume\<close>, \<^verbatim>\<open>__builtin_assume\<close> or
    \<^verbatim>\<open>e ? (void)0 : __builtin_unreachable()\<close>, lines 13 to 25), whose violation is undefined
    behaviour; it is \<open>False\<close> for the empty fallback of line 27.
\<close>

record build =
  ndebug :: bool
  has_assume :: bool

text \<open>
  Every way in which an operation does not deliver its value. \<open>Assertion_failed\<close> is the abort
  of a failing \<^verbatim>\<open>assert\<close>, \<open>Undefined_behaviour\<close> a violated assumption or a read through a
  pointer that designates no object, \<open>Bad_alloc\<close> and \<open>Bad_function_call\<close> the two exceptions
  of the standard library, and \<open>Deleted_function\<close> a call that overload resolution sends to a
  function declared \<^verbatim>\<open>= delete\<close> or whose \<^verbatim>\<open>requires\<close> clause fails (the program is rejected
  by the compiler).
\<close>

datatype error =
    Assertion_failed
  | Undefined_behaviour
  | Bad_alloc
  | Bad_function_call
  | Deleted_function

definition and_then :: "error + 'a \<Rightarrow> ('a \<Rightarrow> error + 'b) \<Rightarrow> error + 'b" where
  "and_then r k = (case r of Inl e \<Rightarrow> Inl e | Inr x \<Rightarrow> k x)"

definition c_assert :: "build \<Rightarrow> bool \<Rightarrow> error + unit" where
  "c_assert cfg cond = (if ndebug cfg then Inr () else if cond then Inr () else Inl Assertion_failed)"

definition NOVA_ASSUME :: "build \<Rightarrow> bool \<Rightarrow> error + unit" where
  "NOVA_ASSUME cfg cond =
     (if has_assume cfg then (if cond then Inr () else Inl Undefined_behaviour) else Inr ())"

section \<open>The pointer representations of the standard library\<close>

text \<open>
  An address is a natural number and \<open>0\<close> is the null pointer value. The template argument
  \<^verbatim>\<open>T\<close> of \<^verbatim>\<open>non_null<T>\<close> is one of three representations:
  \<^item> \<open>Raw_ptr a\<close>: a raw pointer \<^verbatim>\<open>E*\<close> holding the address \<open>a\<close>;
  \<^item> \<open>Unique_ptr a\<close>: a \<^verbatim>\<open>std::unique_ptr<E>\<close> owning the object at \<open>a\<close>;
  \<^item> \<open>Shared_ptr a c\<close>: a \<^verbatim>\<open>std::shared_ptr<E>\<close> whose stored pointer is \<open>a\<close> and whose
    control block (the allocation it shares ownership of) is \<open>c\<close>, with \<open>0\<close> for none.
  The functions of this section are the operations of these types that the header calls; they
  follow the C++ standard library, not the header.
\<close>

type_synonym addr = nat

datatype ptr_t =
    Raw_ptr addr
  | Unique_ptr addr
  | Shared_ptr addr nat

text \<open>\<^verbatim>\<open>std::is_pointer_v<T>\<close>.\<close>

fun is_pointer_v :: "ptr_t \<Rightarrow> bool" where
  "is_pointer_v (Raw_ptr a) = True"
| "is_pointer_v (Unique_ptr a) = False"
| "is_pointer_v (Shared_ptr a c) = False"

text \<open>
  The address a representation designates: the value of a raw pointer, the result of the
  member \<^verbatim>\<open>get()\<close> of a smart pointer.
\<close>

fun pointee_address :: "ptr_t \<Rightarrow> addr" where
  "pointee_address (Raw_ptr a) = a"
| "pointee_address (Unique_ptr a) = a"
| "pointee_address (Shared_ptr a c) = a"

text \<open>The comparison \<^verbatim>\<open>p == nullptr\<close>, defined for all three representations.\<close>

fun eq_nullptr :: "ptr_t \<Rightarrow> bool" where
  "eq_nullptr (Raw_ptr a) = (a = 0)"
| "eq_nullptr (Unique_ptr a) = (a = 0)"
| "eq_nullptr (Shared_ptr a c) = (a = 0)"

text \<open>
  \<^verbatim>\<open>std::copy_constructible<T> && std::is_copy_assignable_v<T>\<close>, the concept
  \<^verbatim>\<open>detail::copyable_pointer\<close> (lines 66 and 67).
\<close>

fun copyable_pointer :: "ptr_t \<Rightarrow> bool" where
  "copyable_pointer (Raw_ptr a) = True"
| "copyable_pointer (Unique_ptr a) = False"
| "copyable_pointer (Shared_ptr a c) = True"

text \<open>
  Move construction or move assignment of a \<^verbatim>\<open>T\<close> from \<^verbatim>\<open>std::move(x)\<close>: the value the
  target receives, and the value left in \<open>x\<close>. Moving a raw pointer copies it; the move
  operations of both smart pointers leave the source empty.
\<close>

fun std_move :: "ptr_t \<Rightarrow> ptr_t \<times> ptr_t" where
  "std_move (Raw_ptr a) = (Raw_ptr a, Raw_ptr a)"
| "std_move (Unique_ptr a) = (Unique_ptr a, Unique_ptr 0)"
| "std_move (Shared_ptr a c) = (Shared_ptr a c, Shared_ptr 0 0)"

text \<open>\<^verbatim>\<open>using std::swap; swap(x, y)\<close>: the new values of \<open>x\<close> and of \<open>y\<close>.\<close>

definition std_swap :: "'t \<Rightarrow> 't \<Rightarrow> 't \<times> 't" where
  "std_swap x y = (y, x)"

text \<open>
  \<^verbatim>\<open>x.owner_before(y)\<close> of \<^verbatim>\<open>std::shared_ptr\<close>: a strict weak order on control blocks, here
  the order of their numbers. The member exists for no other representation.
\<close>

fun std_owner_before :: "ptr_t \<Rightarrow> ptr_t \<Rightarrow> error + bool" where
  "std_owner_before (Shared_ptr a c) (Shared_ptr a' c') = Inr (c < c')"
| "std_owner_before x y = Inl Deleted_function"

text \<open>The result of the built-in \<^verbatim>\<open><=>\<close> on two addresses, a \<^verbatim>\<open>std::strong_ordering\<close>.\<close>

datatype strong_ordering = Ord_less | Ord_equal | Ord_greater

definition three_way_addr :: "addr \<Rightarrow> addr \<Rightarrow> strong_ordering" where
  "three_way_addr x y = (if x < y then Ord_less else if x = y then Ord_equal else Ord_greater)"

section \<open>The heap\<close>

text \<open>
  Objects of the pointee type \<open>'v\<close> live in \<open>cells\<close>. \<open>operator_new\<close> is \<^verbatim>\<open>new E(v)\<close>: it
  takes the next address above \<open>brk\<close>, never the null address, and throws
  \<^verbatim>\<open>std::bad_alloc\<close> when the \<open>limit\<close> of the store is reached. \<open>load\<close> is the built-in
  \<^verbatim>\<open>*p\<close>; reading where no object lives is undefined behaviour.
\<close>

record 'v heap =
  cells :: "addr \<Rightarrow> 'v option"
  brk :: nat
  limit :: nat

definition operator_new :: "'v \<Rightarrow> 'v heap \<Rightarrow> error + addr \<times> 'v heap" where
  "operator_new v h =
     (if brk h < limit h
      then (let a = Suc (brk h) in Inr (a, h\<lparr>cells := (cells h)(a \<mapsto> v), brk := a\<rparr>))
      else Inl Bad_alloc)"

definition load :: "'v heap \<Rightarrow> addr \<Rightarrow> error + 'v" where
  "load h a = (case cells h a of None \<Rightarrow> Inl Undefined_behaviour | Some v \<Rightarrow> Inr v)"

text \<open>\<^verbatim>\<open>std::make_unique<E>(args...)\<close>: \<^verbatim>\<open>std::unique_ptr<E>(new E(args...))\<close>.\<close>

definition std_make_unique :: "('args \<Rightarrow> 'v) \<Rightarrow> 'args \<Rightarrow> 'v heap \<Rightarrow> error + ptr_t \<times> 'v heap" where
  "std_make_unique E args h =
     and_then (operator_new (E args) h) (\<lambda>(a, h'). Inr (Unique_ptr a, h'))"

section \<open>\<^verbatim>\<open>nova::detail\<close>\<close>

text \<open>
  \<^verbatim>\<open>assume_nonnull\<close> (lines 69 to 75): the flag, the \<^verbatim>\<open>assert\<close> and the assumption, in the
  order of the source.
\<close>

definition assume_nonnull :: "build \<Rightarrow> ptr_t \<Rightarrow> error + unit" where
  "assume_nonnull cfg p =
     (let is_not_null = \<not> eq_nullptr p in
      and_then (c_assert cfg is_not_null) (\<lambda>_. NOVA_ASSUME cfg is_not_null))"

section \<open>\<^verbatim>\<open>nova::non_null<T>\<close>\<close>

text \<open>
  The class has the single data member \<^verbatim>\<open>T ptr_\<close> (line 401), here the field \<open>ptr\<close>. The
  type does not exclude a null \<open>ptr\<close>: the operations below decide whether one can arise.
\<close>

record non_null =
  ptr :: ptr_t

text \<open>
  The converting constructor \<^verbatim>\<open>explicit non_null(U&& p)\<close> (lines 113 to 121). The
  initialiser \<^verbatim>\<open>ptr_(std::forward<U>(p))\<close> copy- or move-constructs the member from the
  argument, so the member receives the argument's value \<open>p\<close>; then come the \<^verbatim>\<open>assert\<close> and
  \<^verbatim>\<open>detail::assume_nonnull\<close>.
\<close>

definition non_null_ctor :: "build \<Rightarrow> ptr_t \<Rightarrow> error + non_null" where
  "non_null_ctor cfg p =
     (let this = \<lparr>ptr = p\<rparr> in
      and_then (c_assert cfg (\<not> eq_nullptr (ptr this))) (\<lambda>_.
      and_then (assume_nonnull cfg (ptr this)) (\<lambda>_.
      Inr this)))"

text \<open>
  The defaulted copy constructor (line 141), which exists when \<^verbatim>\<open>T\<close> has one. It returns the
  new wrapper; the source is untouched.
\<close>

definition copy_ctor :: "non_null \<Rightarrow> error + non_null" where
  "copy_ctor other =
     (if copyable_pointer (ptr other) then Inr \<lparr>ptr = ptr other\<rparr> else Inl Deleted_function)"

text \<open>
  The move constructor (lines 148 to 152, deleted by line 166 when the \<^verbatim>\<open>requires\<close> clause
  fails): \<^verbatim>\<open>ptr_(std::move(other.ptr_))\<close>. It returns the new wrapper and the source as the
  call leaves it.
\<close>

definition move_ctor :: "non_null \<Rightarrow> error + non_null \<times> non_null" where
  "move_ctor other =
     (if copyable_pointer (ptr other)
      then (let (p, moved_from) = std_move (ptr other) in
            Inr (\<lparr>ptr = p\<rparr>, other\<lparr>ptr := moved_from\<rparr>))
      else Inl Deleted_function)"

text \<open>
  Move assignment (lines 158 to 163, deleted by line 167 otherwise):
  \<^verbatim>\<open>ptr_ = std::move(other.ptr_)\<close>. It returns the target and the source after the call.
\<close>

definition move_assign :: "non_null \<Rightarrow> non_null \<Rightarrow> error + non_null \<times> non_null" where
  "move_assign this other =
     (if copyable_pointer (ptr other)
      then (let (p, moved_from) = std_move (ptr other) in
            Inr (this\<lparr>ptr := p\<rparr>, other\<lparr>ptr := moved_from\<rparr>))
      else Inl Deleted_function)"

text \<open>
  \<^verbatim>\<open>take(non_null&& nn)\<close> (lines 183 to 189): \<^verbatim>\<open>return std::move(nn.ptr_)\<close>. It returns the
  extracted representation and the wrapper in its moved-from state.
\<close>

definition take :: "non_null \<Rightarrow> ptr_t \<times> non_null" where
  "take nn = (let (p, moved_from) = std_move (ptr nn) in (p, nn\<lparr>ptr := moved_from\<rparr>))"

text \<open>
  The member \<^verbatim>\<open>swap\<close> (lines 195 to 199) and the free function found by argument-dependent
  lookup (lines 419 to 423), which calls the member. Both return the two wrappers after the
  exchange, the left one first.
\<close>

definition swap_member :: "non_null \<Rightarrow> non_null \<Rightarrow> non_null \<times> non_null" where
  "swap_member this other =
     (let (p, q) = std_swap (ptr this) (ptr other) in (this\<lparr>ptr := p\<rparr>, other\<lparr>ptr := q\<rparr>))"

definition swap :: "non_null \<Rightarrow> non_null \<Rightarrow> non_null \<times> non_null" where
  "swap lhs rhs = swap_member lhs rhs"

text \<open>
  \<^verbatim>\<open>get()\<close> (lines 206 to 213): \<^verbatim>\<open>return ptr_\<close> for a raw pointer and
  \<^verbatim>\<open>return ptr_.get()\<close> otherwise.
\<close>

definition get :: "build \<Rightarrow> non_null \<Rightarrow> error + addr" where
  "get cfg this =
     and_then (assume_nonnull cfg (ptr this)) (\<lambda>_.
       if is_pointer_v (ptr this)
       then Inr (pointee_address (ptr this))
       else Inr (pointee_address (ptr this)))"

text \<open>\<^verbatim>\<open>underlying() const&\<close> (lines 219 to 226).\<close>

definition underlying :: "build \<Rightarrow> non_null \<Rightarrow> error + ptr_t" where
  "underlying cfg this = and_then (assume_nonnull cfg (ptr this)) (\<lambda>_. Inr (ptr this))"

text \<open>\<^verbatim>\<open>operator*\<close> (lines 243 to 247): \<^verbatim>\<open>*ptr_\<close> reads the object at the stored address.\<close>

definition deref :: "build \<Rightarrow> non_null \<Rightarrow> 'v heap \<Rightarrow> error + 'v" where
  "deref cfg this h =
     and_then (assume_nonnull cfg (ptr this)) (\<lambda>_. load h (pointee_address (ptr this)))"

text \<open>\<^verbatim>\<open>explicit operator bool\<close> (lines 266 to 269).\<close>

definition operator_bool :: "non_null \<Rightarrow> bool" where
  "operator_bool this = True"

text \<open>\<^verbatim>\<open>owner_before(const non_null<std::shared_ptr<Y>>&)\<close> (lines 305 to 310).\<close>

definition owner_before :: "build \<Rightarrow> non_null \<Rightarrow> non_null \<Rightarrow> error + bool" where
  "owner_before cfg this other =
     and_then (underlying cfg other) (\<lambda>u. std_owner_before (ptr this) u)"

text \<open>
  \<^verbatim>\<open>operator==\<close> and \<^verbatim>\<open>operator<=>\<close> of two wrappers (lines 364 to 377). \<open>operator_less\<close>
  is the expression \<^verbatim>\<open>lhs < rhs\<close>, which the language rewrites to
  \<^verbatim>\<open>(lhs <=> rhs) < 0\<close>.
\<close>

definition operator_eq :: "build \<Rightarrow> non_null \<Rightarrow> non_null \<Rightarrow> error + bool" where
  "operator_eq cfg lhs rhs =
     and_then (get cfg lhs) (\<lambda>l. and_then (get cfg rhs) (\<lambda>r. Inr (l = r)))"

definition operator_three_way :: "build \<Rightarrow> non_null \<Rightarrow> non_null \<Rightarrow> error + strong_ordering" where
  "operator_three_way cfg lhs rhs =
     and_then (get cfg lhs) (\<lambda>l. and_then (get cfg rhs) (\<lambda>r. Inr (three_way_addr l r)))"

definition operator_less :: "build \<Rightarrow> non_null \<Rightarrow> non_null \<Rightarrow> error + bool" where
  "operator_less cfg lhs rhs =
     and_then (operator_three_way cfg lhs rhs) (\<lambda>ord. Inr (ord = Ord_less))"

text \<open>
  \<^verbatim>\<open>operator==(const non_null& lhs, const U& rhs)\<close> (lines 382 to 389). The right operand is
  either the literal \<^verbatim>\<open>nullptr\<close>, of type \<^verbatim>\<open>std::nullptr_t\<close>, or a pointer; the
  \<^verbatim>\<open>if constexpr\<close> selects the branch by that type.
\<close>

datatype operand = Nullptr | Pointer addr

definition operator_eq_U :: "build \<Rightarrow> non_null \<Rightarrow> operand \<Rightarrow> error + bool" where
  "operator_eq_U cfg lhs rhs =
     (case rhs of
        Nullptr \<Rightarrow> Inr False
      | Pointer a \<Rightarrow> and_then (get cfg lhs) (\<lambda>l. Inr (l = a)))"

text \<open>
  \<^verbatim>\<open>try_make_non_null\<close> (lines 437 to 444). The optional is built in place by the converting
  constructor.
\<close>

definition try_make_non_null :: "build \<Rightarrow> ptr_t \<Rightarrow> error + non_null option" where
  "try_make_non_null cfg p =
     (if eq_nullptr p then Inr None
      else and_then (non_null_ctor cfg p) (\<lambda>nn. Inr (Some nn)))"

text \<open>\<^verbatim>\<open>make_non_null_unique\<close> (lines 454 to 458).\<close>

definition make_non_null_unique ::
  "build \<Rightarrow> ('args \<Rightarrow> 'v) \<Rightarrow> 'args \<Rightarrow> 'v heap \<Rightarrow> error + non_null \<times> 'v heap" where
  "make_non_null_unique cfg E args h =
     and_then (std_make_unique E args h) (\<lambda>(p, h').
     and_then (non_null_ctor cfg p) (\<lambda>nn. Inr (nn, h')))"

section \<open>\<^verbatim>\<open>nova::non_null_function\<close> and \<^verbatim>\<open>nova::non_null_move_only_function\<close>\<close>

text \<open>
  A \<^verbatim>\<open>std::function<R(Args...)>\<close> or \<^verbatim>\<open>std::move_only_function<R(Args...)>\<close> is either
  empty (\<open>None\<close>) or holds a target. Conversion to \<^verbatim>\<open>bool\<close> tells which; calling an empty
  \<^verbatim>\<open>std::function\<close> throws \<^verbatim>\<open>std::bad_function_call\<close>; a move leaves the source empty.
  A callable handed to a constructor is modelled the same way: \<open>None\<close> is a null function
  pointer or an empty \<^verbatim>\<open>std::function\<close>, from which the library builds an empty object.
\<close>

type_synonym ('a, 'r) function_type = "('a \<Rightarrow> 'r) option"

definition function_bool :: "('a, 'r) function_type \<Rightarrow> bool" where
  "function_bool f = (case f of None \<Rightarrow> False | Some g \<Rightarrow> True)"

definition function_call :: "('a, 'r) function_type \<Rightarrow> 'a \<Rightarrow> error + 'r" where
  "function_call f args = (case f of None \<Rightarrow> Inl Bad_function_call | Some g \<Rightarrow> Inr (g args))"

definition function_move :: "('a, 'r) function_type \<Rightarrow> ('a, 'r) function_type \<times> ('a, 'r) function_type" where
  "function_move f = (f, None)"

text \<open>\<^verbatim>\<open>detail::assume_not_empty\<close> (lines 77 to 83).\<close>

definition assume_not_empty :: "build \<Rightarrow> ('a, 'r) function_type \<Rightarrow> error + unit" where
  "assume_not_empty cfg f =
     (let is_not_empty = function_bool f in
      and_then (c_assert cfg is_not_empty) (\<lambda>_. NOVA_ASSUME cfg is_not_empty))"

text \<open>The class has the single data member \<^verbatim>\<open>function_type fn_\<close> (line 592).\<close>

record ('a, 'r) non_null_function =
  fn :: "('a, 'r) function_type"

text \<open>The constructor from a callable (lines 506 to 512).\<close>

definition function_ctor :: "build \<Rightarrow> ('a, 'r) function_type \<Rightarrow> error + ('a, 'r) non_null_function" where
  "function_ctor cfg f =
     (let this = \<lparr>fn = f\<rparr> in
      and_then (assume_not_empty cfg (fn this)) (\<lambda>_. Inr this))"

text \<open>The defaulted copy constructor (line 515); the source is untouched.\<close>

definition function_copy_ctor :: "('a, 'r) non_null_function \<Rightarrow> ('a, 'r) non_null_function" where
  "function_copy_ctor other = \<lparr>fn = fn other\<rparr>"

text \<open>
  The move constructor (lines 519 to 527): \<^verbatim>\<open>function_type { other.fn_ }\<close> is a temporary
  copy of the source's member, and \<^verbatim>\<open>fn_\<close> is move-constructed from that temporary. It
  returns the new wrapper and the source after the call.
\<close>

definition function_move_ctor ::
  "build \<Rightarrow> ('a, 'r) non_null_function
     \<Rightarrow> error + ('a, 'r) non_null_function \<times> ('a, 'r) non_null_function" where
  "function_move_ctor cfg other =
     (let temporary = fn other;
          (f, temporary') = function_move temporary;
          this = \<lparr>fn = f\<rparr>
      in and_then (assume_not_empty cfg (fn this)) (\<lambda>_. Inr (this, other)))"

text \<open>Move assignment (lines 528 to 533), with the same temporary.\<close>

definition function_move_assign ::
  "build \<Rightarrow> ('a, 'r) non_null_function \<Rightarrow> ('a, 'r) non_null_function
     \<Rightarrow> error + ('a, 'r) non_null_function \<times> ('a, 'r) non_null_function" where
  "function_move_assign cfg this other =
     (let temporary = fn other;
          (f, temporary') = function_move temporary;
          this' = this\<lparr>fn := f\<rparr>
      in and_then (assume_not_empty cfg (fn this')) (\<lambda>_. Inr (this', other)))"

text \<open>\<^verbatim>\<open>operator()\<close> (lines 545 to 550).\<close>

definition function_invoke :: "build \<Rightarrow> ('a, 'r) non_null_function \<Rightarrow> 'a \<Rightarrow> error + 'r" where
  "function_invoke cfg this args =
     and_then (assume_not_empty cfg (fn this)) (\<lambda>_. function_call (fn this) args)"

text \<open>\<^verbatim>\<open>explicit operator bool\<close> (lines 566 to 569).\<close>

definition function_operator_bool :: "('a, 'r) non_null_function \<Rightarrow> bool" where
  "function_operator_bool this = True"

text \<open>
  \<^verbatim>\<open>non_null_move_only_function\<close> has the single data member \<^verbatim>\<open>function_type fn_\<close> (line
  717), here \<open>mo_fn\<close>; its constructor (lines 642 to 649) and its
  \<^verbatim>\<open>explicit operator bool\<close> (lines 690 to 693) follow.
\<close>

record ('a, 'r) non_null_move_only_function =
  mo_fn :: "('a, 'r) function_type"

definition move_only_function_ctor ::
  "build \<Rightarrow> ('a, 'r) function_type \<Rightarrow> error + ('a, 'r) non_null_move_only_function" where
  "move_only_function_ctor cfg f =
     (let this = \<lparr>mo_fn = f\<rparr> in
      and_then (assume_not_empty cfg (mo_fn this)) (\<lambda>_. Inr this))"

definition move_only_function_operator_bool :: "('a, 'r) non_null_move_only_function \<Rightarrow> bool" where
  "move_only_function_operator_bool this = True"

section \<open>Basic facts\<close>

lemma and_then_Inr: "and_then (Inr x) k = k x"
  by (simp add: and_then_def)

lemma and_then_Inl: "and_then (Inl e) k = Inl e"
  by (simp add: and_then_def)

lemma assume_nonnull_ok: "\<not> eq_nullptr p \<Longrightarrow> assume_nonnull cfg p = Inr ()"
  by (simp add: assume_nonnull_def c_assert_def NOVA_ASSUME_def and_then_def)

lemma assume_not_empty_ok: "assume_not_empty cfg (Some g) = Inr ()"
  by (simp add: assume_not_empty_def function_bool_def c_assert_def NOVA_ASSUME_def and_then_def)

lemma get_ok: "\<not> eq_nullptr (ptr nn) \<Longrightarrow> get cfg nn = Inr (pointee_address (ptr nn))"
  by (simp add: get_def assume_nonnull_ok and_then_Inr)

lemma non_null_ctor_ok: "\<not> eq_nullptr p \<Longrightarrow> non_null_ctor cfg p = Inr \<lparr>ptr = p\<rparr>"
  by (simp add: non_null_ctor_def Let_def c_assert_def assume_nonnull_ok and_then_def)

text \<open>
  What the constructor does with a null value when \<^verbatim>\<open>NDEBUG\<close> is defined: undefined
  behaviour where \<^verbatim>\<open>NOVA_ASSUME\<close> is an assumption, a wrapper of the null value where it
  is empty.
\<close>

lemma non_null_ctor_unchecked:
  "ndebug cfg \<Longrightarrow> eq_nullptr p \<Longrightarrow>
     non_null_ctor cfg p = (if has_assume cfg then Inl Undefined_behaviour else Inr \<lparr>ptr = p\<rparr>)"
  by (simp add: non_null_ctor_def Let_def c_assert_def assume_nonnull_def NOVA_ASSUME_def
      and_then_def)

section \<open>Moving a wrapper of a copyable representation\<close>

text \<open>
  For a raw pointer the move constructor and move assignment leave the source as it was, as
  the copy constructor does.
\<close>

lemma move_ctor_raw:
  "move_ctor \<lparr>ptr = Raw_ptr a\<rparr> = Inr (\<lparr>ptr = Raw_ptr a\<rparr>, \<lparr>ptr = Raw_ptr a\<rparr>)"
  by (simp add: move_ctor_def)

lemma move_assign_raw:
  "move_assign this \<lparr>ptr = Raw_ptr a\<rparr> = Inr (\<lparr>ptr = Raw_ptr a\<rparr>, \<lparr>ptr = Raw_ptr a\<rparr>)"
  by (simp add: move_assign_def)

text \<open>
  For a \<^verbatim>\<open>std::shared_ptr\<close> they hand the member to the move operations of
  \<^verbatim>\<open>std::shared_ptr\<close>, which empty the source, whatever it held.
\<close>

lemma move_ctor_shared:
  "move_ctor \<lparr>ptr = Shared_ptr a c\<rparr> = Inr (\<lparr>ptr = Shared_ptr a c\<rparr>, \<lparr>ptr = Shared_ptr 0 0\<rparr>)"
  by (simp add: move_ctor_def)

lemma move_assign_shared:
  "move_assign this \<lparr>ptr = Shared_ptr a c\<rparr>
     = Inr (\<lparr>ptr = Shared_ptr a c\<rparr>, \<lparr>ptr = Shared_ptr 0 0\<rparr>)"
  by (simp add: move_assign_def)

text \<open>
  C1 states that moving from a wrapper of the Raw or Shared category leaves the source holding
  its original non-null pointee, exactly as a copy would. The header does not do so for the
  Shared category: a wrapper of the shared pointer with stored address 1 and control block 1
  is left holding the empty shared pointer by the move constructor and by move assignment,
  while the copy constructor only reads it; the source then compares equal to
  \<^verbatim>\<open>nullptr\<close>, and its \<^verbatim>\<open>get()\<close> fails the assertion of a checked build.
\<close>

theorem move_of_shared_empties_source:
  "move_ctor \<lparr>ptr = Shared_ptr 1 1\<rparr> = Inr (\<lparr>ptr = Shared_ptr 1 1\<rparr>, \<lparr>ptr = Shared_ptr 0 0\<rparr>)
   \<and> move_assign \<lparr>ptr = Shared_ptr 2 2\<rparr> \<lparr>ptr = Shared_ptr 1 1\<rparr>
       = Inr (\<lparr>ptr = Shared_ptr 1 1\<rparr>, \<lparr>ptr = Shared_ptr 0 0\<rparr>)
   \<and> copy_ctor \<lparr>ptr = Shared_ptr 1 1\<rparr> = Inr \<lparr>ptr = Shared_ptr 1 1\<rparr>
   \<and> eq_nullptr (ptr \<lparr>ptr = Shared_ptr 0 0\<rparr>)
   \<and> get \<lparr>ndebug = False, has_assume = True\<rparr> \<lparr>ptr = Shared_ptr 0 0\<rparr> = Inl Assertion_failed"
  by (simp add: move_ctor_def move_assign_def copy_ctor_def get_def assume_nonnull_def Let_def
      c_assert_def and_then_def)

section \<open>Construction\<close>

text \<open>
  C2: \<^verbatim>\<open>try_make_non_null(p)\<close> returns the absent optional exactly when \<open>p\<close> equals
  \<^verbatim>\<open>nullptr\<close>; for a non-null \<open>p\<close> it returns a present optional whose wrapper holds \<open>p\<close>
  and whose \<^verbatim>\<open>get()\<close> is the address of \<open>p\<close>; and no optional it returns contains a
  wrapper of a null value. This holds in every build, so that on the absent path not even
  the assertion of the constructor is reached.
\<close>

theorem try_make_non_null_absent_iff_null:
  "(try_make_non_null cfg p = Inr None) = eq_nullptr p
   \<and> (\<not> eq_nullptr p \<longrightarrow>
        try_make_non_null cfg p = Inr (Some \<lparr>ptr = p\<rparr>)
        \<and> get cfg \<lparr>ptr = p\<rparr> = Inr (pointee_address p))
   \<and> (\<forall>nn. try_make_non_null cfg p = Inr (Some nn) \<longrightarrow> \<not> eq_nullptr (ptr nn))"
proof (cases "eq_nullptr p")
  case True
  then show ?thesis by (simp add: try_make_non_null_def)
next
  case False
  then have present: "try_make_non_null cfg p = Inr (Some \<lparr>ptr = p\<rparr>)"
    by (simp add: try_make_non_null_def non_null_ctor_ok and_then_Inr)
  moreover from False have "get cfg \<lparr>ptr = p\<rparr> = Inr (pointee_address p)"
    by (simp add: get_ok)
  ultimately show ?thesis using False by auto
qed

theorem try_make_non_null_absent_iff_null_witness:
  "try_make_non_null \<lparr>ndebug = False, has_assume = True\<rparr> (Raw_ptr 0) = Inr None
   \<and> eq_nullptr (Raw_ptr 0)
   \<and> \<not> eq_nullptr (Shared_ptr 5 1)
   \<and> try_make_non_null \<lparr>ndebug = False, has_assume = True\<rparr> (Shared_ptr 5 1)
       = Inr (Some \<lparr>ptr = Shared_ptr 5 1\<rparr>)
   \<and> get \<lparr>ndebug = False, has_assume = True\<rparr> \<lparr>ptr = Shared_ptr 5 1\<rparr> = Inr 5
   \<and> \<not> eq_nullptr (ptr \<lparr>ptr = Shared_ptr 5 1\<rparr>)"
  using try_make_non_null_absent_iff_null [of "\<lparr>ndebug = False, has_assume = True\<rparr>" "Raw_ptr 0"]
    try_make_non_null_absent_iff_null [of "\<lparr>ndebug = False, has_assume = True\<rparr>" "Shared_ptr 5 1"]
  by simp

text \<open>
  C3: in a checked build (\<^verbatim>\<open>NDEBUG\<close> not defined) the converting constructor fails, with an
  assertion failure, exactly when the supplied value equals \<^verbatim>\<open>nullptr\<close>; and in every
  build the construction from a non-null value succeeds and the wrapper holds that value.
\<close>

theorem non_null_ctor_fails_iff_null:
  "(\<not> ndebug cfg \<longrightarrow> (non_null_ctor cfg p = Inl Assertion_failed) = eq_nullptr p)
   \<and> (\<not> eq_nullptr p \<longrightarrow> non_null_ctor cfg p = Inr \<lparr>ptr = p\<rparr>)"
  by (simp add: non_null_ctor_def Let_def c_assert_def assume_nonnull_def NOVA_ASSUME_def
      and_then_def)

theorem non_null_ctor_fails_iff_null_witness:
  "\<not> ndebug \<lparr>ndebug = False, has_assume = False\<rparr>
   \<and> eq_nullptr (Unique_ptr 0)
   \<and> non_null_ctor \<lparr>ndebug = False, has_assume = False\<rparr> (Unique_ptr 0) = Inl Assertion_failed
   \<and> \<not> eq_nullptr (Unique_ptr 3)
   \<and> non_null_ctor \<lparr>ndebug = False, has_assume = False\<rparr> (Unique_ptr 3)
       = Inr \<lparr>ptr = Unique_ptr 3\<rparr>"
  using non_null_ctor_fails_iff_null [of "\<lparr>ndebug = False, has_assume = False\<rparr>" "Unique_ptr 0"]
    non_null_ctor_fails_iff_null [of "\<lparr>ndebug = False, has_assume = False\<rparr>" "Unique_ptr 3"]
  by simp

section \<open>Comparison with the null pointer and conversion to \<^verbatim>\<open>bool\<close>\<close>

text \<open>
  C4: comparing any wrapper with the literal \<^verbatim>\<open>nullptr\<close> by \<^verbatim>\<open>==\<close> returns
  \<^verbatim>\<open>false\<close>, in every build and whatever the wrapper holds: the result is the same for any
  two wrappers, so it does not depend on the stored pointer, and no assertion on the stored
  pointer can fail on the way.
\<close>

theorem operator_eq_nullptr_is_false:
  "operator_eq_U cfg lhs Nullptr = Inr False
   \<and> operator_eq_U cfg lhs Nullptr = operator_eq_U cfg' lhs' Nullptr"
  by (simp add: operator_eq_U_def)

text \<open>
  C10: for each of the three wrappers the explicit conversion to \<^verbatim>\<open>bool\<close> returns
  \<^verbatim>\<open>true\<close> for every instance, whatever value is stored in it.
\<close>

theorem operator_bool_is_true:
  "operator_bool nn = True
   \<and> function_operator_bool f = True
   \<and> move_only_function_operator_bool m = True"
  by (simp add: operator_bool_def function_operator_bool_def move_only_function_operator_bool_def)

section \<open>Factory, extraction and swap\<close>

text \<open>
  C5: when the allocator has room, \<^verbatim>\<open>make_non_null_unique<E>(args)\<close> returns a wrapper of
  a fresh exclusive-ownership pointer; \<^verbatim>\<open>take\<close> of that wrapper yields this pointer, whose
  pointee is the value \<open>E args\<close> that constructing the object directly gives; and wrapping
  the extracted pointer again succeeds, in every build, and dereferences to the same value.
  The only other outcome of the factory is \<^verbatim>\<open>std::bad_alloc\<close> from the allocator.
\<close>

theorem take_make_non_null_unique_round_trip:
  assumes room: "brk h < limit h"
  shows "let a = Suc (brk h);
             h' = h\<lparr>cells := (cells h)(a \<mapsto> E args), brk := a\<rparr>
         in make_non_null_unique cfg E args h = Inr (\<lparr>ptr = Unique_ptr a\<rparr>, h')
            \<and> take \<lparr>ptr = Unique_ptr a\<rparr> = (Unique_ptr a, \<lparr>ptr = Unique_ptr 0\<rparr>)
            \<and> load h' a = Inr (E args)
            \<and> non_null_ctor cfg (Unique_ptr a) = Inr \<lparr>ptr = Unique_ptr a\<rparr>
            \<and> deref cfg \<lparr>ptr = Unique_ptr a\<rparr> h' = Inr (E args)"
proof -
  define a where "a = Suc (brk h)"
  define h' where "h' = h\<lparr>cells := (cells h)(a \<mapsto> E args), brk := a\<rparr>"
  have nn: "\<not> eq_nullptr (Unique_ptr a)" by (simp add: a_def)
  have new: "std_make_unique E args h = Inr (Unique_ptr a, h')"
    using room by (simp add: std_make_unique_def operator_new_def and_then_def a_def h'_def)
  have made: "make_non_null_unique cfg E args h = Inr (\<lparr>ptr = Unique_ptr a\<rparr>, h')"
    by (simp add: make_non_null_unique_def new and_then_Inr non_null_ctor_ok [OF nn])
  have taken: "take \<lparr>ptr = Unique_ptr a\<rparr> = (Unique_ptr a, \<lparr>ptr = Unique_ptr 0\<rparr>)"
    by (simp add: take_def)
  have loaded: "load h' a = Inr (E args)"
    by (simp add: load_def h'_def)
  have read: "deref cfg \<lparr>ptr = Unique_ptr a\<rparr> h' = Inr (E args)"
    using nn by (simp add: deref_def assume_nonnull_ok and_then_Inr loaded)
  show ?thesis
    unfolding Let_def a_def [symmetric] h'_def [symmetric]
    using made taken loaded non_null_ctor_ok [OF nn] read by simp
qed

theorem take_make_non_null_unique_round_trip_witness:
  "brk \<lparr>cells = Map.empty, brk = 0, limit = 8\<rparr> < limit \<lparr>cells = (Map.empty :: addr \<Rightarrow> string option), brk = 0, limit = 8\<rparr>
   \<and> make_non_null_unique \<lparr>ndebug = False, has_assume = True\<rparr> (\<lambda>s. s) ''hello''
        \<lparr>cells = Map.empty, brk = 0, limit = 8\<rparr>
      = Inr (\<lparr>ptr = Unique_ptr 1\<rparr>, \<lparr>cells = [1 \<mapsto> ''hello''], brk = 1, limit = 8\<rparr>)
   \<and> take \<lparr>ptr = Unique_ptr 1\<rparr> = (Unique_ptr 1, \<lparr>ptr = Unique_ptr 0\<rparr>)
   \<and> load \<lparr>cells = [1 \<mapsto> ''hello''], brk = 1, limit = 8\<rparr> 1 = Inr ''hello''
   \<and> non_null_ctor \<lparr>ndebug = False, has_assume = True\<rparr> (Unique_ptr 1) = Inr \<lparr>ptr = Unique_ptr 1\<rparr>
   \<and> deref \<lparr>ndebug = False, has_assume = True\<rparr> \<lparr>ptr = Unique_ptr 1\<rparr>
        \<lparr>cells = [1 \<mapsto> ''hello''], brk = 1, limit = 8\<rparr> = Inr ''hello''"
  using take_make_non_null_unique_round_trip
    [where h = "\<lparr>cells = Map.empty, brk = 0, limit = 8\<rparr>"
       and cfg = "\<lparr>ndebug = False, has_assume = True\<rparr>"
       and E = "\<lambda>s :: string. s" and args = "''hello''"]
  by (simp add: Let_def)

text \<open>
  C6: for two wrappers that hold non-null values, the member \<^verbatim>\<open>swap\<close> and the free
  \<^verbatim>\<open>swap\<close> leave the left wrapper holding what the right one held and the right wrapper
  holding what the left one held, and both hold non-null values afterwards. The exchange is
  one step of \<^verbatim>\<open>std::swap\<close> on the two members; the header runs nothing between its start
  and its end at which a wrapper could be inspected.
\<close>

theorem swap_exchanges_pointees:
  assumes "\<not> eq_nullptr (ptr a)" and "\<not> eq_nullptr (ptr b)"
  shows "swap_member a b = (\<lparr>ptr = ptr b\<rparr>, \<lparr>ptr = ptr a\<rparr>)
         \<and> swap a b = (\<lparr>ptr = ptr b\<rparr>, \<lparr>ptr = ptr a\<rparr>)
         \<and> \<not> eq_nullptr (ptr (fst (swap a b)))
         \<and> \<not> eq_nullptr (ptr (snd (swap a b)))"
  using assms by (simp add: swap_def swap_member_def std_swap_def)

theorem swap_exchanges_pointees_witness:
  "\<not> eq_nullptr (ptr \<lparr>ptr = Unique_ptr 1\<rparr>) \<and> \<not> eq_nullptr (ptr \<lparr>ptr = Unique_ptr 2\<rparr>)
   \<and> swap_member \<lparr>ptr = Unique_ptr 1\<rparr> \<lparr>ptr = Unique_ptr 2\<rparr>
       = (\<lparr>ptr = Unique_ptr 2\<rparr>, \<lparr>ptr = Unique_ptr 1\<rparr>)
   \<and> swap \<lparr>ptr = Unique_ptr 1\<rparr> \<lparr>ptr = Unique_ptr 2\<rparr>
       = (\<lparr>ptr = Unique_ptr 2\<rparr>, \<lparr>ptr = Unique_ptr 1\<rparr>)"
  using swap_exchanges_pointees [of "\<lparr>ptr = Unique_ptr 1\<rparr>" "\<lparr>ptr = Unique_ptr 2\<rparr>"]
  by simp

section \<open>The callable wrappers\<close>

text \<open>
  C7: invoking a \<^verbatim>\<open>non_null_function\<close> that holds the callable \<open>g\<close> with the argument
  \<open>x\<close> returns \<open>g x\<close>, in every build and never \<^verbatim>\<open>std::bad_function_call\<close>; the same
  holds for a wrapper constructed from \<open>g\<close>; and the wrapper constructed from the doubling
  callable returns 42 when invoked with 21. (The C++ \<^verbatim>\<open>int\<close> of the test is an \<open>int\<close> here;
  no overflow is involved at 21.)
\<close>

theorem function_invoke_forwards:
  "function_invoke cfg \<lparr>fn = Some g\<rparr> x = Inr (g x)
   \<and> and_then (function_ctor cfg (Some g)) (\<lambda>w. function_invoke cfg w x) = Inr (g x)
   \<and> and_then (function_ctor cfg (Some (\<lambda>x :: int. x * 2))) (\<lambda>w. function_invoke cfg w 21)
       = Inr 42"
  by (simp add: function_invoke_def function_ctor_def Let_def assume_not_empty_ok and_then_Inr
      function_call_def)

text \<open>
  C8: move construction and move assignment of a \<^verbatim>\<open>non_null_function\<close> from a source
  that holds a callable \<open>g\<close> give the target what the copy constructor gives and leave the
  source exactly as it was, so that invoking the source afterwards still returns \<open>g x\<close>.
\<close>

theorem function_move_is_copy:
  assumes "fn s = Some g"
  shows "function_move_ctor cfg s = Inr (function_copy_ctor s, s)
         \<and> function_move_assign cfg t s = Inr (function_copy_ctor s, s)
         \<and> function_copy_ctor s = s
         \<and> function_invoke cfg s x = Inr (g x)"
  using assms
  by (simp add: function_move_ctor_def function_move_assign_def function_copy_ctor_def
      function_move_def function_invoke_def function_call_def Let_def assume_not_empty_ok
      and_then_Inr)

theorem function_move_is_copy_witness:
  "fn \<lparr>fn = Some (\<lambda>x :: int. x * 2)\<rparr> = Some (\<lambda>x. x * 2)
   \<and> function_move_ctor \<lparr>ndebug = False, has_assume = True\<rparr> \<lparr>fn = Some (\<lambda>x :: int. x * 2)\<rparr>
       = Inr (\<lparr>fn = Some (\<lambda>x. x * 2)\<rparr>, \<lparr>fn = Some (\<lambda>x. x * 2)\<rparr>)
   \<and> function_move_assign \<lparr>ndebug = False, has_assume = True\<rparr> \<lparr>fn = Some (\<lambda>x. x + 1)\<rparr>
        \<lparr>fn = Some (\<lambda>x :: int. x * 2)\<rparr>
       = Inr (\<lparr>fn = Some (\<lambda>x. x * 2)\<rparr>, \<lparr>fn = Some (\<lambda>x. x * 2)\<rparr>)
   \<and> function_invoke \<lparr>ndebug = False, has_assume = True\<rparr> \<lparr>fn = Some (\<lambda>x :: int. x * 2)\<rparr> 21
       = Inr 42"
  using function_move_is_copy
    [where s = "\<lparr>fn = Some (\<lambda>x :: int. x * 2)\<rparr>" and g = "\<lambda>x :: int. x * 2"
       and cfg = "\<lparr>ndebug = False, has_assume = True\<rparr>"
       and t = "\<lparr>fn = Some (\<lambda>x :: int. x + 1)\<rparr>" and x = 21]
  by (simp add: function_copy_ctor_def)

section \<open>Equality and ordering\<close>

text \<open>
  C9: for two wrappers holding non-null values, \<^verbatim>\<open>operator==\<close> returns \<^verbatim>\<open>true\<close> when
  both designate the same address; when both are shared pointers of the same control block,
  \<^verbatim>\<open>owner_before\<close> is \<^verbatim>\<open>false\<close> in both directions; and when the addresses differ,
  exactly one of \<^verbatim>\<open>a < b\<close> and \<^verbatim>\<open>b < a\<close>, both evaluated through \<^verbatim>\<open>operator<=>\<close>,
  is \<^verbatim>\<open>true\<close>.
\<close>

theorem ordering_consistency:
  assumes "\<not> eq_nullptr (ptr a)" and "\<not> eq_nullptr (ptr b)"
  shows "(pointee_address (ptr a) = pointee_address (ptr b) \<longrightarrow> operator_eq cfg a b = Inr True)
         \<and> (\<forall>pa pb c. ptr a = Shared_ptr pa c \<and> ptr b = Shared_ptr pb c \<longrightarrow>
               owner_before cfg a b = Inr False \<and> owner_before cfg b a = Inr False)
         \<and> (pointee_address (ptr a) \<noteq> pointee_address (ptr b) \<longrightarrow>
               (operator_less cfg a b = Inr True \<and> operator_less cfg b a = Inr False)
               \<or> (operator_less cfg a b = Inr False \<and> operator_less cfg b a = Inr True))"
proof -
  have eq: "operator_eq cfg a b = Inr (pointee_address (ptr a) = pointee_address (ptr b))"
    using assms by (simp add: operator_eq_def get_ok and_then_Inr)
  have owner: "owner_before cfg a b = Inr False \<and> owner_before cfg b a = Inr False"
    if "ptr a = Shared_ptr pa c" and "ptr b = Shared_ptr pb c" for pa pb c
    using assms that by (simp add: owner_before_def underlying_def assume_nonnull_ok and_then_Inr)
  have less: "operator_less cfg x y = Inr (pointee_address (ptr x) < pointee_address (ptr y))"
    if "\<not> eq_nullptr (ptr x)" and "\<not> eq_nullptr (ptr y)" for x y
    using that
    by (simp add: operator_less_def operator_three_way_def three_way_addr_def get_ok and_then_Inr)
  have strict: "(operator_less cfg a b = Inr True \<and> operator_less cfg b a = Inr False)
       \<or> (operator_less cfg a b = Inr False \<and> operator_less cfg b a = Inr True)"
    if "pointee_address (ptr a) \<noteq> pointee_address (ptr b)"
    using that assms by (auto simp: less)
  show ?thesis using eq owner strict by auto
qed

theorem ordering_consistency_witness:
  "\<not> eq_nullptr (ptr \<lparr>ptr = Shared_ptr 4 1\<rparr>) \<and> \<not> eq_nullptr (ptr \<lparr>ptr = Shared_ptr 4 1\<rparr>)
   \<and> operator_eq \<lparr>ndebug = False, has_assume = True\<rparr> \<lparr>ptr = Shared_ptr 4 1\<rparr> \<lparr>ptr = Shared_ptr 4 1\<rparr> = Inr True
   \<and> owner_before \<lparr>ndebug = False, has_assume = True\<rparr> \<lparr>ptr = Shared_ptr 4 1\<rparr> \<lparr>ptr = Shared_ptr 4 1\<rparr> = Inr False
   \<and> \<not> eq_nullptr (ptr \<lparr>ptr = Raw_ptr 8\<rparr>) \<and> \<not> eq_nullptr (ptr \<lparr>ptr = Raw_ptr 12\<rparr>)
   \<and> operator_less \<lparr>ndebug = False, has_assume = True\<rparr> \<lparr>ptr = Raw_ptr 8\<rparr> \<lparr>ptr = Raw_ptr 12\<rparr> = Inr True
   \<and> operator_less \<lparr>ndebug = False, has_assume = True\<rparr> \<lparr>ptr = Raw_ptr 12\<rparr> \<lparr>ptr = Raw_ptr 8\<rparr> = Inr False"
proof -
  let ?cfg = "\<lparr>ndebug = False, has_assume = True\<rparr>"
  have same: "\<not> eq_nullptr (ptr \<lparr>ptr = Shared_ptr 4 1\<rparr>)" by simp
  have x: "\<not> eq_nullptr (ptr \<lparr>ptr = Raw_ptr 8\<rparr>)" and y: "\<not> eq_nullptr (ptr \<lparr>ptr = Raw_ptr 12\<rparr>)"
    by simp_all
  have less: "operator_less ?cfg \<lparr>ptr = Raw_ptr 8\<rparr> \<lparr>ptr = Raw_ptr 12\<rparr> = Inr True"
    by (simp add: operator_less_def operator_three_way_def three_way_addr_def get_ok and_then_Inr)
  show ?thesis
    using ordering_consistency [OF same same, of ?cfg] ordering_consistency [OF x y, of ?cfg] less
    by auto
qed

end
